theory Spec2Isabelle
  imports Main "HOL-Library.Char_ord" "HOL-Library.Sublist" "HOL-Library.AList"
begin

section \<open>JavaScript values and strings\<close>

text \<open>
  The theme generator (\<^verbatim>\<open>lib/antd-theme-generator.js\<close>) works on strings, on plain
  objects used as dictionaries, and on regular expressions. A JavaScript string is
  modelled as a \<^typ>\<open>string\<close>, a sequence of code units below 256; where a function of the
  source can also see \<^verbatim>\<open>undefined\<close> (a missing property, a missing argument) the value
  is a \<open>jsval\<close>; what a property read can give beyond these is a \<open>propval\<close>, below.
\<close>

datatype jsval = Undefined | Str string

text \<open>Truthiness of a value: \<^verbatim>\<open>undefined\<close> and the empty string are falsy.\<close>

fun truthy :: "jsval \<Rightarrow> bool" where
  "truthy Undefined = False"
| "truthy (Str s) = (s \<noteq> [])"

text \<open>The property key a value is converted to by \<^verbatim>\<open>obj[v]\<close> and \<^verbatim>\<open>v in obj\<close>.\<close>

fun key :: "jsval \<Rightarrow> string" where
  "key Undefined = ''undefined''"
| "key (Str s) = s"

text \<open>
  A dictionary object is created as \<^verbatim>\<open>{}\<close> and filled by assignment: an association list
  of its own entries in insertion order, and behind it the properties every such object
  inherits from \<^verbatim>\<open>Object.prototype\<close>. The names of these are, in Node,
\<close>

type_synonym mapping = "(string \<times> string) list"

definition proto_names :: "string list" where
  "proto_names =
     [''constructor'', ''__defineGetter__'', ''__defineSetter__'', ''hasOwnProperty'',
      ''__lookupGetter__'', ''__lookupSetter__'', ''isPrototypeOf'', ''propertyIsEnumerable'',
      ''toString'', ''valueOf'', ''__proto__'', ''toLocaleString'']"

text \<open>
  What reading a property can give: a string of the object's own, \<^verbatim>\<open>undefined\<close>, or the
  value inherited under one of these names (a function; under \<^verbatim>\<open>__proto__\<close> the prototype
  object itself). Used as a property key, an inherited value is converted to a string:
  the prototype object to \<^verbatim>\<open>[object Object]\<close>, a function to its source text as Node
  prints it, \<^verbatim>\<open>function toString() { [native code] }\<close> (the function under
  \<^verbatim>\<open>constructor\<close> is named \<^verbatim>\<open>Object\<close>).
\<close>

datatype propval = Val jsval | Inherited string

fun prop_key :: "propval \<Rightarrow> string" where
  "prop_key (Val v) = key v"
| "prop_key (Inherited n) =
     (if n = ''__proto__'' then ''[object Object]''
      else ''function '' @ (if n = ''constructor'' then ''Object'' else n)
           @ ''() { [native code] }'')"

fun truthy_value :: "propval \<Rightarrow> bool" where
  "truthy_value (Val v) = truthy v"
| "truthy_value (Inherited n) = True"

text \<open>
  \<^verbatim>\<open>obj[v]\<close> and \<^verbatim>\<open>v in obj\<close>: an own entry comes first, then the inherited names.
\<close>

definition lookup :: "mapping \<Rightarrow> propval \<Rightarrow> propval" where
  "lookup mappings v =
     (case map_of mappings (prop_key v) of
        Some s \<Rightarrow> Val (Str s)
      | None \<Rightarrow> if prop_key v \<in> set proto_names then Inherited (prop_key v)
                else Val Undefined)"

definition has :: "mapping \<Rightarrow> propval \<Rightarrow> bool" where
  "has mappings v = (map_of mappings (prop_key v) \<noteq> None \<or> prop_key v \<in> set proto_names)"

text \<open>
  \<^verbatim>\<open>obj[k] = v\<close> for a string \<open>v\<close>: the entry is added or replaced, but under the name
  \<^verbatim>\<open>__proto__\<close> the inherited setter takes the assignment and, given a string, does
  nothing.
\<close>

definition set_prop :: "mapping \<Rightarrow> string \<Rightarrow> string \<Rightarrow> mapping" where
  "set_prop obj k v = (if k = ''__proto__'' then obj else AList.update k v obj)"

definition is_digit :: "char \<Rightarrow> bool" where
  "is_digit c = (c \<in> set ''0123456789'')"

definition is_hex :: "char \<Rightarrow> bool" where
  "is_hex c = (c \<in> set ''0123456789abcdefABCDEF'')"

text \<open>White space and line terminators of the language, among the code units below 256.\<close>

definition is_space :: "char \<Rightarrow> bool" where
  "is_space c =
     (c \<in> set [CHR 0x09, CHR 0x0A, CHR 0x0B, CHR 0x0C, CHR 0x0D, CHR 0x20, CHR 0xA0])"

definition is_line_terminator :: "char \<Rightarrow> bool" where
  "is_line_terminator c = (c = CHR 0x0A \<or> c = CHR 0x0D)"

definition is_upper :: "char \<Rightarrow> bool" where
  "is_upper c = (c \<in> set ''ABCDEFGHIJKLMNOPQRSTUVWXYZ'')"

definition is_lower :: "char \<Rightarrow> bool" where
  "is_lower c = (c \<in> set ''abcdefghijklmnopqrstuvwxyz'')"

definition is_word :: "char \<Rightarrow> bool" where
  "is_word c = (is_upper c \<or> is_lower c \<or> is_digit c \<or> c = CHR ''_'')"

text \<open>\<^verbatim>\<open>s.split(c)\<close> for a separator of one character.\<close>

fun split_char :: "char \<Rightarrow> string \<Rightarrow> string list" where
  "split_char c [] = [[]]"
| "split_char c (x # xs) =
     (if x = c then [] # split_char c xs
      else (case split_char c xs of [] \<Rightarrow> [[x]] | y # ys \<Rightarrow> (x # y) # ys))"

text \<open>\<^verbatim>\<open>xs.join(sep)\<close>.\<close>

fun join :: "string \<Rightarrow> string list \<Rightarrow> string" where
  "join sep [] = []"
| "join sep [x] = x"
| "join sep (x # y # ys) = x @ sep @ join sep (y # ys)"

definition trim :: "string \<Rightarrow> string" where
  "trim s = rev (dropWhile is_space (rev (dropWhile is_space s)))"

text \<open>\<^verbatim>\<open>s.replace(a, b)\<close> with a string pattern: the first occurrence only.\<close>

fun replace_first :: "string \<Rightarrow> string \<Rightarrow> string \<Rightarrow> string" where
  "replace_first a b [] = (if a = [] then b else [])"
| "replace_first a b (x # xs) =
     (if prefix a (x # xs) then b @ drop (length a) (x # xs)
      else x # replace_first a b xs)"

text \<open>
  \<^verbatim>\<open>parseInt(s, 16)\<close>: leading white space is skipped, then an optional sign, then an
  optional \<^verbatim>\<open>0x\<close> or \<^verbatim>\<open>0X\<close>, then the longest run of hexadecimal digits is read. With no
  digit there the result is \<^verbatim>\<open>NaN\<close>, here \<open>None\<close>. The characters after the digits are
  ignored.
\<close>

definition hex_digit_val :: "char \<Rightarrow> int" where
  "hex_digit_val c =
     (if is_digit c then int (of_char c) - 48
      else if is_lower c then int (of_char c) - 87
      else int (of_char c) - 55)"

definition parseInt16 :: "string \<Rightarrow> int option" where
  "parseInt16 s =
     (let t = dropWhile is_space s;
          neg = (take 1 t = ''-'');
          t1 = (if take 1 t = ''-'' \<or> take 1 t = ''+'' then drop 1 t else t);
          t2 = (if take 2 t1 = ''0x'' \<or> take 2 t1 = ''0X'' then drop 2 t1 else t1);
          ds = takeWhile is_hex t2;
          n = foldl (\<lambda>a d. 16 * a + hex_digit_val d) 0 ds
      in if ds = [] then None else Some (if neg then - n else n))"

section \<open>Regular expressions\<close>

text \<open>
  The patterns of the source are terms of \<open>re\<close>, matched by a backtracking matcher that
  returns every way a pattern can match at the start of a string, in the order in which
  the language's matcher tries them (a greedy quantifier tries one more repetition before
  it tries to stop; the left alternative comes first). The head of the list is the match
  the language reports. A result is the rest of the input and the captured groups.
\<close>

datatype citem = COne char | CRange char char | CDigit | CSpace | CWord

datatype re =
    Lit string
  | Dot
  | Cls bool "citem list"
  | Seq re re
  | Alt re re
  | Rep nat "nat option" re
  | Grp nat re
  | Look re
  | Bol
  | Eol

type_synonym caps = "(nat \<times> string) list"

text \<open>Canonical form of a character under the \<^verbatim>\<open>i\<close> flag: upper case.\<close>

definition canon :: "bool \<Rightarrow> char \<Rightarrow> char" where
  "canon ic c = (if ic \<and> is_lower c then char_of (of_char c - (32::nat)) else c)"

fun citem_match :: "bool \<Rightarrow> citem \<Rightarrow> char \<Rightarrow> bool" where
  "citem_match ic (COne a) c = (canon ic a = canon ic c)"
| "citem_match ic (CRange lo hi) c =
     ((lo \<le> c \<and> c \<le> hi) \<or>
      (ic \<and> list_ex (\<lambda>a. lo \<le> a \<and> a \<le> hi \<and> canon ic a = canon ic c)
              (''abcdefghijklmnopqrstuvwxyz'' @ ''ABCDEFGHIJKLMNOPQRSTUVWXYZ'')))"
| "citem_match ic CDigit c = is_digit c"
| "citem_match ic CSpace c = is_space c"
| "citem_match ic CWord c = is_word c"

fun re_size :: "re \<Rightarrow> nat" where
  "re_size (Seq a b) = Suc (re_size a + re_size b)"
| "re_size (Alt a b) = Suc (re_size a + re_size b)"
| "re_size (Rep lo hi r) = Suc (re_size r)"
| "re_size (Grp k r) = Suc (re_size r)"
| "re_size (Look r) = Suc (re_size r)"
| "re_size _ = 0"

text \<open>
  \<open>matches ic n r s c\<close>: the matches of \<open>r\<close> at the start of \<open>s\<close>, where \<open>ic\<close> is the
  \<^verbatim>\<open>i\<close> flag, \<open>n\<close> the length of the whole input (for \<^verbatim>\<open>^\<close>) and \<open>c\<close> the groups
  captured so far. \<open>Rep lo hi r\<close> is the greedy quantifier \<^verbatim>\<open>{lo,hi}\<close>; an iteration that
  consumes nothing is not repeated. Every quantified atom of the source's patterns
  consumes at least one character, so this guard never changes a result there.
\<close>

function matches :: "bool \<Rightarrow> nat \<Rightarrow> re \<Rightarrow> string \<Rightarrow> caps \<Rightarrow> (string \<times> caps) list" where
  "matches ic n (Lit l) s c =
     (if length l \<le> length s \<and> map (canon ic) (take (length l) s) = map (canon ic) l
      then [(drop (length l) s, c)] else [])"
| "matches ic n Dot s c =
     (case s of [] \<Rightarrow> [] | x # t \<Rightarrow> if is_line_terminator x then [] else [(t, c)])"
| "matches ic n (Cls neg items) s c =
     (case s of [] \<Rightarrow> []
      | x # t \<Rightarrow> if list_ex (\<lambda>i. citem_match ic i x) items \<noteq> neg then [(t, c)] else [])"
| "matches ic n (Seq a b) s c =
     concat (map (\<lambda>p. matches ic n b (fst p) (snd p)) (matches ic n a s c))"
| "matches ic n (Alt a b) s c = matches ic n a s c @ matches ic n b s c"
| "matches ic n (Grp k r) s c =
     map (\<lambda>p. (fst p, (k, take (length s - length (fst p)) s) # snd p)) (matches ic n r s c)"
| "matches ic n (Look r) s c =
     (case matches ic n r s c of [] \<Rightarrow> [] | p # _ \<Rightarrow> [(s, snd p)])"
| "matches ic n Bol s c = (if length s = n then [(s, c)] else [])"
| "matches ic n Eol s c = (if s = [] then [(s, c)] else [])"
| "matches ic n (Rep lo hi r) s c =
     (if hi = Some 0 then [(s, c)]
      else concat (map (\<lambda>p. if length (fst p) < length s
                              then matches ic n (Rep (lo - 1) (map_option (\<lambda>h. h - 1) hi) r)
                                     (fst p) (snd p)
                              else [])
                       (matches ic n r s c))
           @ (if lo = 0 then [(s, c)] else []))"
  by pat_completeness auto
termination
  by (relation "inv_image (less_than <*lex*> less_than)
                  (\<lambda>(ic, n, r, s, c). (re_size r, length s))") auto

text \<open>Pattern notation: \<^verbatim>\<open>r*\<close>, \<^verbatim>\<open>r+\<close>, \<^verbatim>\<open>r?\<close>, a sequence, and the escapes.\<close>

definition star :: "re \<Rightarrow> re" where "star r = Rep 0 None r"
definition plus :: "re \<Rightarrow> re" where "plus r = Rep 1 None r"
definition opt :: "re \<Rightarrow> re" where "opt r = Rep 0 (Some 1) r"

fun seqs :: "re list \<Rightarrow> re" where
  "seqs [] = Lit []"
| "seqs [r] = r"
| "seqs (r # rs) = Seq r (seqs rs)"

definition digit :: re where "digit = Cls False [CDigit]"
definition space :: re where "space = Cls False [CSpace]"
definition nonspace :: re where "nonspace = Cls True [CSpace]"

text \<open>
  A regular expression object: the pattern and its \<^verbatim>\<open>i\<close> flag. The position a pattern
  with the \<^verbatim>\<open>g\<close> flag remembers between two calls of \<^verbatim>\<open>test\<close> is not modelled: the
  source calls \<^verbatim>\<open>test\<close> on patterns without that flag only.
\<close>

datatype regexp = RegExp re bool

text \<open>
  The first match of a pattern in a string, trying each start position from the left:
  the input from the start of the match, the input after it, and the groups.
\<close>

fun exec_at :: "bool \<Rightarrow> nat \<Rightarrow> re \<Rightarrow> string \<Rightarrow> (string \<times> string \<times> caps) option" where
  "exec_at ic n r [] =
     (case matches ic n r [] [] of [] \<Rightarrow> None | p # _ \<Rightarrow> Some ([], fst p, snd p))"
| "exec_at ic n r (x # t) =
     (case matches ic n r (x # t) [] of
        [] \<Rightarrow> exec_at ic n r t
      | p # _ \<Rightarrow> Some (x # t, fst p, snd p))"

text \<open>\<^verbatim>\<open>regex.test(s)\<close>, and the truth value of \<^verbatim>\<open>s.match(regex)\<close>.\<close>

fun re_test :: "regexp \<Rightarrow> string \<Rightarrow> bool" where
  "re_test (RegExp r ic) s = (exec_at ic (length s) r s \<noteq> None)"

text \<open>
  \<^verbatim>\<open>s.match(regex)\<close> without the \<^verbatim>\<open>g\<close> flag: \<open>None\<close> for \<^verbatim>\<open>null\<close>, else the groups;
  \<open>group g k\<close> is element \<open>k\<close> of the result.
\<close>

fun re_match :: "regexp \<Rightarrow> string \<Rightarrow> caps option" where
  "re_match (RegExp r ic) s =
     (case exec_at ic (length s) r s of None \<Rightarrow> None | Some (s0, s1, c) \<Rightarrow> Some c)"

definition group :: "caps \<Rightarrow> nat \<Rightarrow> jsval" where
  "group g k = (case map_of g k of None \<Rightarrow> Undefined | Some s \<Rightarrow> Str s)"

text \<open>
  \<^verbatim>\<open>s.match(regex)\<close> with the \<^verbatim>\<open>g\<close> flag: the matched substrings from left to right,
  each search starting where the last match ended (one character further after an empty
  match).
\<close>

function match_all_at :: "bool \<Rightarrow> nat \<Rightarrow> re \<Rightarrow> string \<Rightarrow> string list" where
  "match_all_at ic n r s =
     (case matches ic n r s [] of
        [] \<Rightarrow> (case s of [] \<Rightarrow> [] | x # t \<Rightarrow> match_all_at ic n r t)
      | p # _ \<Rightarrow>
          take (length s - length (fst p)) s #
            (if length (fst p) < length s then match_all_at ic n r (fst p)
             else (case s of [] \<Rightarrow> [] | x # t \<Rightarrow> match_all_at ic n r t)))"
  by pat_completeness auto
termination
  by (relation "measure (\<lambda>(ic, n, r, s). length s)") auto

fun re_match_all :: "regexp \<Rightarrow> string \<Rightarrow> string list" where
  "re_match_all (RegExp r ic) s = match_all_at ic (length s) r s"

text \<open>\<^verbatim>\<open>s.replace(regex, b)\<close> with the \<^verbatim>\<open>g\<close> flag and a replacement without \<^verbatim>\<open>$\<close>.\<close>

function replace_all_at :: "bool \<Rightarrow> nat \<Rightarrow> re \<Rightarrow> string \<Rightarrow> string \<Rightarrow> string" where
  "replace_all_at ic n r b s =
     (case matches ic n r s [] of
        [] \<Rightarrow> (case s of [] \<Rightarrow> [] | x # t \<Rightarrow> x # replace_all_at ic n r b t)
      | p # _ \<Rightarrow>
          b @ (if length (fst p) < length s then replace_all_at ic n r b (fst p)
               else (case s of [] \<Rightarrow> [] | x # t \<Rightarrow> x # replace_all_at ic n r b t)))"
  by pat_completeness auto
termination
  by (relation "measure (\<lambda>(ic, n, r, b, s). length s)") auto

fun re_replace_all :: "regexp \<Rightarrow> string \<Rightarrow> string \<Rightarrow> string" where
  "re_replace_all (RegExp r ic) b s = replace_all_at ic (length s) r b s"

text \<open>
  \<^verbatim>\<open>s.split(regex)\<close> for a separator pattern without groups: \<open>cur\<close> is the piece read
  since the last separator. A separator is looked for at every position but the end, and
  an empty match right after the last separator is passed over.
\<close>

function split_at :: "bool \<Rightarrow> nat \<Rightarrow> re \<Rightarrow> string \<Rightarrow> string \<Rightarrow> string list" where
  "split_at ic n r cur s =
     (case s of
        [] \<Rightarrow> [cur]
      | x # t \<Rightarrow>
          (case matches ic n r s [] of
             [] \<Rightarrow> split_at ic n r (cur @ [x]) t
           | p # _ \<Rightarrow>
               if length (fst p) < length s then cur # split_at ic n r [] (fst p)
               else if cur = [] then split_at ic n r [x] t
               else cur # split_at ic n r [x] t))"
  by pat_completeness auto
termination
  by (relation "measure (\<lambda>(ic, n, r, cur, s). length s)") auto

fun re_split :: "regexp \<Rightarrow> string \<Rightarrow> string list" where
  "re_split (RegExp r ic) s =
     (if s = [] then (if matches ic 0 r [] [] = [] then [[]] else [])
      else split_at ic (length s) r [] s)"

section \<open>The colour classifier\<close>

text \<open>
  The patterns of \<^verbatim>\<open>isValidColor\<close>: \<^verbatim>\<open>/px/g\<close>, \<^verbatim>\<open>/colorPalette|fade/g\<close> and the
  functional form
  \<^verbatim>\<open>/^(rgb|hsl|hsv)a?\((\d+%?(deg|rad|grad|turn)?[,\s]+){2,3}[\s\/]*[\d\.]+%?\)$/i\<close>.
\<close>

definition px_re :: regexp where
  "px_re = RegExp (Lit ''px'') False"

definition palette_re :: regexp where
  "palette_re = RegExp (Alt (Lit ''colorPalette'') (Lit ''fade'')) False"

definition functional_re :: regexp where
  "functional_re =
     RegExp (seqs
       [Bol,
        Grp 1 (Alt (Lit ''rgb'') (Alt (Lit ''hsl'') (Lit ''hsv''))),
        opt (Lit ''a''),
        Lit ''('',
        Rep 2 (Some 3)
          (Grp 2 (seqs
             [plus digit,
              opt (Lit ''%''),
              opt (Grp 3 (Alt (Lit ''deg'') (Alt (Lit ''rad'') (Alt (Lit ''grad'') (Lit ''turn''))))),
              plus (Cls False [COne CHR '','', CSpace])])),
        star (Cls False [CSpace, COne CHR ''/'']),
        plus (Cls False [CDigit, COne CHR ''.'']),
        opt (Lit ''%''),
        Lit '')'',
        Eol]) True"

text \<open>
  \<^verbatim>\<open>isValidColor(color, customColorRegexArray)\<close>, branch by branch. The caller's extra
  patterns are consulted last, by \<^verbatim>\<open>reduce\<close> from \<^verbatim>\<open>false\<close>.
\<close>

definition isValidColor :: "jsval \<Rightarrow> regexp list \<Rightarrow> bool" where
  "isValidColor color customColorRegexArray =
     (case color of
        Undefined \<Rightarrow> False
      | Str s \<Rightarrow>
          if s \<noteq> [] \<and> sublist ''rgb'' s then True
          else if s = [] \<or> re_test px_re s then False
          else if re_test palette_re s then True
          else if take 1 s = ''#'' then
            (let s' = drop 1 s
             in length s' \<in> set [3, 4, 6, 8] \<and> parseInt16 s' \<noteq> None)
          else if re_test functional_re s then True
          else if length customColorRegexArray > 0 then
            foldl (\<lambda>prev regex. prev \<or> re_test regex s) False customColorRegexArray
          else False)"

section \<open>The variable collector\<close>

text \<open>
  \<^verbatim>\<open>getColor(varName, mappings)\<close> follows a variable through the mapping. The source
  recurses with no guard, so on a cyclic mapping the call never returns a value (the
  recursion exhausts the stack): the model is a partial function, \<open>None\<close> where the
  recursion does not end. The depth the host allows to a recursion that does end is not
  modelled.
\<close>

partial_function (option) getColor :: "propval \<Rightarrow> mapping \<Rightarrow> propval option" where
  "getColor varName mappings =
     (let color = lookup mappings varName
      in if has mappings color then getColor color mappings else Some color)"

declare getColor.simps [code]






text \<open>
  The line pattern of \<^verbatim>\<open>generateColorMap\<close>,
  \<^verbatim>\<open>/(?=\S*['-])([@a-zA-Z0-9'-]+).*:[ ]{1,}(.*);/\<close>.
\<close>

definition color_line_re :: regexp where
  "color_line_re =
     RegExp (seqs
       [Look (Seq (star nonspace) (Cls False [COne (CHR 0x27), COne CHR ''-''])),
        Grp 1 (plus (Cls False [COne CHR ''@'', CRange CHR ''a'' CHR ''z'',
                                CRange CHR ''A'' CHR ''Z'', CRange CHR ''0'' CHR ''9'',
                                COne (CHR 0x27), COne CHR ''-''])),
        star Dot,
        Lit '':'',
        Rep 1 None (Cls False [COne CHR '' '']),
        Grp 2 (star Dot),
        Lit '';'']) False"

text \<open>
  One step of the \<^verbatim>\<open>reduce\<close> in \<^verbatim>\<open>generateColorMap\<close>. The step's \<^verbatim>\<open>try\<close> block
  catches what \<^verbatim>\<open>getColor\<close> throws when its recursion does not end, and keeps the
  mapping as it was. It also catches what \<^verbatim>\<open>isValidColor\<close> throws when \<^verbatim>\<open>getColor\<close> has
  returned an inherited function or object, which has no \<^verbatim>\<open>includes\<close> to call. A value
  that passes the classifier is a string, so the last case of the inner distinction is
  never taken.
\<close>

definition color_map_step :: "regexp list \<Rightarrow> mapping \<Rightarrow> string \<Rightarrow> mapping" where
  "color_map_step customColorRegexArray prev next =
     (case re_match color_line_re next of
        None \<Rightarrow> prev
      | Some ms \<Rightarrow>
          (let varName = group ms 1; color = group ms 2
           in if truthy color \<and> prefix ''@'' (key color) then
                (case getColor (Val color) prev of
                   None \<Rightarrow> prev
                 | Some (Inherited n) \<Rightarrow> prev
                 | Some (Val color') \<Rightarrow>
                     if \<not> isValidColor color' customColorRegexArray then prev
                     else (case color' of
                             Str v \<Rightarrow> set_prop prev (key varName) v
                           | Undefined \<Rightarrow> prev))
              else if isValidColor color customColorRegexArray then
                set_prop prev (key varName) (key color)
              else prev))"

definition generateColorMap :: "string \<Rightarrow> regexp list \<Rightarrow> mapping" where
  "generateColorMap content customColorRegexArray =
     foldl (color_map_step customColorRegexArray) []
       (filter (\<lambda>line. prefix ''@'' line \<and> CHR '':'' \<in> set line)
          (split_char CHR 0x0A content))"

text \<open>
  \<^verbatim>\<open>getLessVars\<close> reads the variables file and works on its text \<open>sheet\<close>: every match of
  \<^verbatim>\<open>/@(.*:[^;]*)/g\<close> is split at \<^verbatim>\<open>/:\s*/\<close>, the name is the first piece without quotes
  (\<^verbatim>\<open>/['"]+/g\<close>), trimmed, and the value the other pieces joined by a colon.
\<close>

definition less_var_re :: regexp where
  "less_var_re =
     RegExp (seqs [Lit ''@'',
                   Grp 1 (seqs [star Dot, Lit '':'', star (Cls True [COne CHR '';''])])]) False"

definition colon_re :: regexp where
  "colon_re = RegExp (Seq (Lit '':'') (star space)) False"

definition quotes_re :: regexp where
  "quotes_re = RegExp (plus (Cls False [COne (CHR 0x27), COne (CHR 0x22)])) False"

definition less_var_step :: "mapping \<Rightarrow> string \<Rightarrow> mapping" where
  "less_var_step lessVars variable =
     (let definition = re_split colon_re variable;
          varName = trim (re_replace_all quotes_re [] (hd definition))
      in set_prop lessVars varName (join '':'' (tl definition)))"

definition getLessVars :: "string \<Rightarrow> mapping" where
  "getLessVars sheet = foldl less_var_step [] (re_match_all less_var_re sheet)"

section \<open>Markers and shades\<close>

text \<open>What a stage of the generator can throw.\<close>

datatype error = TypeError | RangeError | Failure string

text \<open>Template strings print a number in decimal.\<close>

definition digit_char :: "nat \<Rightarrow> char" where
  "digit_char d = ''0123456789'' ! (d mod 10)"

fun show_nat :: "nat \<Rightarrow> string" where
  "show_nat n =
     (if n < 10 then [digit_char n]
      else show_nat (n div 10) @ [digit_char (n mod 10)])"

text \<open>
  \<^verbatim>\<open>getShade(varName)\<close> matches \<^verbatim>\<open>/(.*)-(\d)/\<close>, replaces the class name by the primary
  variable when \<^verbatim>\<open>/primary-\d/\<close> matches, and builds the palette expression. Taking the
  groups of a failed match throws.
\<close>

definition shade_re :: regexp where
  "shade_re = RegExp (seqs [Grp 1 (star Dot), Lit ''-'', Grp 2 digit]) False"

definition primary_re :: regexp where
  "primary_re = RegExp (Seq (Lit ''primary-'') digit) False"

definition getShade :: "string \<Rightarrow> error + string" where
  "getShade varName =
     (case re_match shade_re varName of
        None \<Rightarrow> Inl TypeError
      | Some ms \<Rightarrow>
          (let className = (if re_test primary_re varName then ''@primary-color''
                            else key (group ms 1));
               number = key (group ms 2)
           in Inr (''color(~'' @ [CHR 0x60] @ ''colorPalette('' @ [CHR 0x22, CHR ''@'', CHR ''{'']
                   @ replace_first ''@'' [] className
                   @ ''}'' @ [CHR 0x22] @ '', '' @ number @ '')'' @ [CHR 0x60] @ '')'')))"

text \<open>
  The palette expression for a class name and an index, as \<^verbatim>\<open>getShade\<close> documents it.
\<close>

definition palette_expr :: "string \<Rightarrow> string \<Rightarrow> string" where
  "palette_expr name number =
     ''color(~'' @ [CHR 0x60] @ ''colorPalette('' @ [CHR 0x22, CHR ''@'', CHR ''{''] @ name
     @ ''}'' @ [CHR 0x22] @ '', '' @ number @ '')'' @ [CHR 0x60] @ '')''"

text \<open>
  The shade rules of \<^verbatim>\<open>generateTheme\<close>: for each theme variable, one rule for each key
  of the list, each put in front of the style sheet built so far.
\<close>

definition shade_keys :: "nat list" where
  "shade_keys = [1, 2, 3, 4, 5, 7, 8, 9, 10]"

definition shade_name :: "string \<Rightarrow> nat \<Rightarrow> string" where
  "shade_name varName k =
     (if varName = ''@primary-color'' then ''@primary-'' @ show_nat k
      else varName @ ''-'' @ show_nat k)"

definition shade_rule :: "string \<Rightarrow> error + string" where
  "shade_rule name =
     (case getShade name of
        Inl e \<Rightarrow> Inl e
      | Inr shade \<Rightarrow>
          Inr (''.'' @ replace_first ''@'' [] name @ '' { color: '' @ shade @ ''; }''
               @ [CHR 0x0A] @ '' ''))"

fun shade_rules :: "string \<Rightarrow> nat list \<Rightarrow> string \<Rightarrow> error + string" where
  "shade_rules varName [] css = Inr css"
| "shade_rules varName (k # ks) css =
     (case shade_rule (shade_name varName k) of
        Inl e \<Rightarrow> Inl e
      | Inr rule \<Rightarrow> shade_rules varName ks (rule @ css))"

text \<open>
  \<^verbatim>\<open>randomColor()\<close> prints \<^verbatim>\<open>0x1000000 + Math.random() * 0xffffff\<close> in base 16 and keeps
  the six digits after the leading one: the colour is fixed by the integer part \<open>k\<close> of
  the scaled random number. The draws of a run are the list of these integers.
\<close>

definition hex_char :: "nat \<Rightarrow> char" where
  "hex_char d = ''0123456789abcdef'' ! (d mod 16)"

definition randomColor :: "nat \<Rightarrow> string" where
  "randomColor k =
     ''#'' @ map (\<lambda>i. hex_char (k div 16 ^ i)) [5, 4, 3, 2, 1, 0]"

definition PRIMARY_RANDOM_COLOR :: string where
  "PRIMARY_RANDOM_COLOR = ''#123456''"

text \<open>
  The marker loop of \<^verbatim>\<open>generateTheme\<close>. The state is the two dictionaries, the style
  sheet built so far and the draws not yet used. The \<^verbatim>\<open>while\<close> loop draws again as long
  as its condition holds; \<open>None\<close> when the draws run out before it ends.
\<close>

record markers =
  randomColors :: mapping
  randomColorsVars :: mapping
  css :: string
  draws :: "nat list"

definition reroll_cond :: "mapping \<Rightarrow> string \<Rightarrow> bool" where
  "reroll_cond colorsVars color =
     ((truthy_value (lookup colorsVars (Val (Str color))) \<and> color = PRIMARY_RANDOM_COLOR)
      \<or> color = ''#000000'' \<or> color = ''#ffffff'')"

fun reroll :: "mapping \<Rightarrow> string \<Rightarrow> nat list \<Rightarrow> (string \<times> nat list) option" where
  "reroll colorsVars color [] = (if reroll_cond colorsVars color then None else Some (color, []))"
| "reroll colorsVars color (d # ds) =
     (if reroll_cond colorsVars color then reroll colorsVars (randomColor d) ds
      else Some (color, d # ds))"

definition assign_marker :: "markers \<Rightarrow> string \<Rightarrow> markers option" where
  "assign_marker st varName =
     (case draws st of
        [] \<Rightarrow> None
      | d # ds \<Rightarrow>
          (case (if varName = ''@primary-color'' then Some (PRIMARY_RANDOM_COLOR, ds)
                 else reroll (randomColorsVars st) (randomColor d) ds) of
             None \<Rightarrow> None
           | Some (color, ds') \<Rightarrow>
               Some \<lparr>randomColors = set_prop (randomColors st) varName color,
                     randomColorsVars = set_prop (randomColorsVars st) color varName,
                     css = ''.'' @ replace_first ''@'' [] varName @ '' { color: '' @ color
                           @ ''; }'' @ [CHR 0x0A] @ '' '' @ css st,
                     draws = ds'\<rparr>))"

fun assign_markers :: "markers \<Rightarrow> string list \<Rightarrow> markers option" where
  "assign_markers st [] = Some st"
| "assign_markers st (varName # themeVars) =
     (case assign_marker st varName of
        None \<Rightarrow> None
      | Some st' \<Rightarrow> assign_markers st' themeVars)"

text \<open>
  The theme variables are first filtered to the names the mapping has and that are not
  shade names; the marker loop starts from empty dictionaries and an empty style sheet.
\<close>

definition filter_theme_vars :: "mapping \<Rightarrow> string list \<Rightarrow> string list" where
  "filter_theme_vars mappings themeVars =
     filter (\<lambda>name. has mappings (Val (Str name)) \<and> re_match shade_re name = None) themeVars"

definition marker_assignment :: "mapping \<Rightarrow> string list \<Rightarrow> nat list \<Rightarrow> markers option" where
  "marker_assignment mappings themeVars ds =
     assign_markers \<lparr>randomColors = [], randomColorsVars = [], css = [], draws = ds\<rparr>
       (filter_theme_vars mappings themeVars)"

section \<open>The declaration pruner\<close>

text \<open>
  \<^verbatim>\<open>reducePlugin\<close> works on the tree of a parsed style sheet: declarations (property and
  value, both strings), comments, at-rules and rules, the last two with child nodes.
\<close>

datatype node =
    Decl string string
  | Comment string
  | AtRule string string "node list"
  | Rule string "node list"

definition url_re :: regexp where
  "url_re = RegExp (seqs [Lit ''url('', star Dot, Lit '')'']) False"

text \<open>
  \<^verbatim>\<open>Number.isNaN(x)\<close> converts nothing: it is true of the number \<^verbatim>\<open>NaN\<close> alone. The value
  of a parsed declaration is a string, so the test is false of it.
\<close>

definition Number_isNaN :: "string \<Rightarrow> bool" where
  "Number_isNaN decl_value = False"

text \<open>
  The callback of \<^verbatim>\<open>walkDecls\<close> in \<^verbatim>\<open>cleanRule\<close>, for a declaration with the given
  property and value: \<open>decl_removed\<close> says whether the callback removes the declaration
  (by its first test on \<^verbatim>\<open>url(...)\<close>, or by its second), \<open>decl_keeps_rule\<close> whether it
  sets \<^verbatim>\<open>removeRule\<close> to false (the constant \<^verbatim>\<open>matched\<close> is false).
\<close>

definition second_test :: "string \<Rightarrow> string \<Rightarrow> bool" where
  "second_test prop decl_value =
     (\<not> sublist ''color'' prop \<and> \<not> sublist ''background'' prop \<and>
      \<not> sublist ''border'' prop \<and> \<not> sublist ''box-shadow'' prop \<and>
      \<not> Number_isNaN decl_value)"

definition decl_removed :: "string \<Rightarrow> string \<Rightarrow> bool" where
  "decl_removed prop decl_value =
     (re_test url_re decl_value \<or> second_test prop decl_value)"

definition decl_keeps_rule :: "string \<Rightarrow> string \<Rightarrow> bool" where
  "decl_keeps_rule prop decl_value = (\<not> second_test prop decl_value)"

text \<open>
  \<^verbatim>\<open>rule.walkDecls\<close> visits every declaration below the rule, at any depth:
  \<open>walk_decls\<close> is the list of child nodes after the walk, \<open>keeps_rule\<close> whether some
  visited declaration has set \<^verbatim>\<open>removeRule\<close> to false.
\<close>

fun walk_decls :: "node list \<Rightarrow> node list" where
  "walk_decls [] = []"
| "walk_decls (Decl prop v # ns) =
     (if decl_removed prop v then walk_decls ns else Decl prop v # walk_decls ns)"
| "walk_decls (Comment t # ns) = Comment t # walk_decls ns"
| "walk_decls (AtRule name params body # ns) = AtRule name params (walk_decls body) # walk_decls ns"
| "walk_decls (Rule sel body # ns) = Rule sel (walk_decls body) # walk_decls ns"

fun keeps_rule :: "node list \<Rightarrow> bool" where
  "keeps_rule [] = False"
| "keeps_rule (Decl prop v # ns) = (decl_keeps_rule prop v \<or> keeps_rule ns)"
| "keeps_rule (Comment t # ns) = keeps_rule ns"
| "keeps_rule (AtRule name params body # ns) = (keeps_rule body \<or> keeps_rule ns)"
| "keeps_rule (Rule sel body # ns) = (keeps_rule body \<or> keeps_rule ns)"

text \<open>\<^verbatim>\<open>css.walkAtRules\<close>: every at-rule is removed, with all it holds.\<close>

fun remove_at_rules :: "node list \<Rightarrow> node list" where
  "remove_at_rules [] = []"
| "remove_at_rules (AtRule name params body # ns) = remove_at_rules ns"
| "remove_at_rules (Rule sel body # ns) = Rule sel (remove_at_rules body) # remove_at_rules ns"
| "remove_at_rules (n # ns) = n # remove_at_rules ns"

text \<open>\<^verbatim>\<open>css.walkComments\<close>: every comment is removed.\<close>

fun remove_comments :: "node list \<Rightarrow> node list" where
  "remove_comments [] = []"
| "remove_comments (Comment t # ns) = remove_comments ns"
| "remove_comments (AtRule name params body # ns) =
     AtRule name params (remove_comments body) # remove_comments ns"
| "remove_comments (Rule sel body # ns) = Rule sel (remove_comments body) # remove_comments ns"
| "remove_comments (n # ns) = n # remove_comments ns"

fun nodes_size :: "node list \<Rightarrow> nat" where
  "nodes_size [] = 0"
| "nodes_size (Decl prop v # ns) = Suc (nodes_size ns)"
| "nodes_size (Comment t # ns) = Suc (nodes_size ns)"
| "nodes_size (AtRule name params body # ns) = Suc (nodes_size body + nodes_size ns)"
| "nodes_size (Rule sel body # ns) = Suc (nodes_size body + nodes_size ns)"

lemma nodes_size_walk_decls: "nodes_size (walk_decls ns) \<le> nodes_size ns"
  by (induction ns rule: walk_decls.induct) auto

text \<open>
  \<^verbatim>\<open>css.walkRules(cleanRule)\<close>: the walk calls \<^verbatim>\<open>cleanRule\<close> on a rule and then goes
  through the children the rule has left. \<^verbatim>\<open>cleanRule\<close> removes a rule whose selector
  starts with the palette prefix; otherwise it walks the rule's declarations and removes
  the rule when no declaration has set \<^verbatim>\<open>removeRule\<close> to false.
\<close>

function clean_rules :: "node list \<Rightarrow> node list" where
  "clean_rules [] = []"
| "clean_rules (Rule sel body # ns) =
     (if prefix ''.main-color .palatte-'' sel then clean_rules ns
      else if \<not> keeps_rule body then clean_rules ns
      else Rule sel (clean_rules (walk_decls body)) # clean_rules ns)"
| "clean_rules (AtRule name params body # ns) =
     AtRule name params (clean_rules body) # clean_rules ns"
| "clean_rules (Decl prop v # ns) = Decl prop v # clean_rules ns"
| "clean_rules (Comment t # ns) = Comment t # clean_rules ns"
  by pat_completeness auto
termination
  by (relation "measure nodes_size") (auto simp: nodes_size_walk_decls less_Suc_eq_le intro: le_trans trans_le_add1)

definition reducePlugin :: "node list \<Rightarrow> node list" where
  "reducePlugin css_root = remove_comments (clean_rules (remove_at_rules css_root))"

text \<open>
  The declarations of a tree: all of them, and those below some rule (the ones a
  \<^verbatim>\<open>walkDecls\<close> of \<^verbatim>\<open>cleanRule\<close> can visit).
\<close>

fun all_decls :: "node list \<Rightarrow> (string \<times> string) list" where
  "all_decls [] = []"
| "all_decls (Decl prop v # ns) = (prop, v) # all_decls ns"
| "all_decls (Comment t # ns) = all_decls ns"
| "all_decls (AtRule name params body # ns) = all_decls body @ all_decls ns"
| "all_decls (Rule sel body # ns) = all_decls body @ all_decls ns"

fun rule_decls :: "node list \<Rightarrow> (string \<times> string) list" where
  "rule_decls [] = []"
| "rule_decls (Decl prop v # ns) = rule_decls ns"
| "rule_decls (Comment t # ns) = rule_decls ns"
| "rule_decls (AtRule name params body # ns) = rule_decls body @ rule_decls ns"
| "rule_decls (Rule sel body # ns) = all_decls body @ rule_decls ns"

text \<open>
  Shapes of a tree between the passes of the pruner. \<open>no_at\<close>: no at-rule is left.
  \<open>walked\<close>: below a rule whose declarations have been walked, no declaration is one the
  callback removes. \<open>pre_body\<close> and \<open>pre_top\<close>: after \<^verbatim>\<open>walkRules\<close>, below a rule and at
  the root, no rule has the palette prefix either. \<open>clean_body\<close> and \<open>clean_top\<close>: the
  same with no comment, the shape of the pruner's output. \<open>full\<close>: every rule has a
  declaration below it.
\<close>

fun walked :: "node list \<Rightarrow> bool" where
  "walked [] = True"
| "walked (Decl prop v # ns) = (\<not> decl_removed prop v \<and> walked ns)"
| "walked (Comment t # ns) = walked ns"
| "walked (AtRule name params body # ns) = False"
| "walked (Rule sel body # ns) = (walked body \<and> walked ns)"

fun no_at :: "node list \<Rightarrow> bool" where
  "no_at [] = True"
| "no_at (AtRule name params body # ns) = False"
| "no_at (Rule sel body # ns) = (no_at body \<and> no_at ns)"
| "no_at (n # ns) = no_at ns"

fun pre_body :: "node list \<Rightarrow> bool" where
  "pre_body [] = True"
| "pre_body (Decl prop v # ns) = (\<not> decl_removed prop v \<and> pre_body ns)"
| "pre_body (Comment t # ns) = pre_body ns"
| "pre_body (AtRule name params body # ns) = False"
| "pre_body (Rule sel body # ns) =
     (\<not> prefix ''.main-color .palatte-'' sel \<and> pre_body body \<and> pre_body ns)"

fun pre_top :: "node list \<Rightarrow> bool" where
  "pre_top [] = True"
| "pre_top (Decl prop v # ns) = pre_top ns"
| "pre_top (Comment t # ns) = pre_top ns"
| "pre_top (AtRule name params body # ns) = False"
| "pre_top (Rule sel body # ns) =
     (\<not> prefix ''.main-color .palatte-'' sel \<and> pre_body body \<and> pre_top ns)"

fun clean_body :: "node list \<Rightarrow> bool" where
  "clean_body [] = True"
| "clean_body (Decl prop v # ns) = (\<not> decl_removed prop v \<and> clean_body ns)"
| "clean_body (Comment t # ns) = False"
| "clean_body (AtRule name params body # ns) = False"
| "clean_body (Rule sel body # ns) =
     (\<not> prefix ''.main-color .palatte-'' sel \<and> clean_body body \<and> clean_body ns)"

fun clean_top :: "node list \<Rightarrow> bool" where
  "clean_top [] = True"
| "clean_top (Decl prop v # ns) = clean_top ns"
| "clean_top (Comment t # ns) = False"
| "clean_top (AtRule name params body # ns) = False"
| "clean_top (Rule sel body # ns) =
     (\<not> prefix ''.main-color .palatte-'' sel \<and> clean_body body \<and> clean_top ns)"

fun full :: "node list \<Rightarrow> bool" where
  "full [] = True"
| "full (Rule sel body # ns) = (all_decls body \<noteq> [] \<and> full body \<and> full ns)"
| "full (AtRule name params body # ns) = (full body \<and> full ns)"
| "full (n # ns) = full ns"

section \<open>The generation cache\<close>

text \<open>
  \<^verbatim>\<open>generateTheme\<close> keeps two variables of the module between calls. Around them the
  function is: read and join the consumer style sheets (\<open>content\<close>: the text, or what
  the reading threw), hash the text, return the stored style sheet when the hash is the
  stored one, else store the hash, run the stages up to minification (\<open>stages\<close>: their
  style sheet, or what one of them threw), store the style sheet and return it. The
  \<^verbatim>\<open>catch\<close> around all of it logs the error and returns the empty string. The hash
  function of the \<^verbatim>\<open>crypto\<close> library is the parameter \<open>sha1\<close>. The result is the
  returned text, the cache after the call and the errors logged.
\<close>

record cache =
  hashCache :: string
  cssCache :: string

definition generateTheme ::
  "(string \<Rightarrow> string) \<Rightarrow> error + string \<Rightarrow> error + string \<Rightarrow> cache \<Rightarrow> string \<times> cache \<times> error list"
where
  "generateTheme sha1 content stages st =
     (case content of
        Inl e \<Rightarrow> ([], st, [e])
      | Inr text \<Rightarrow>
          (let hashCode = sha1 text
           in if hashCode = hashCache st then (cssCache st, st, [])
              else (let st1 = st\<lparr>hashCache := hashCode\<rparr>
                    in case stages of
                         Inl e \<Rightarrow> ([], st1, [e])
                       | Inr css_text \<Rightarrow> (css_text, st1\<lparr>cssCache := css_text\<rparr>, []))))"

section \<open>The colour classifier on the listed values\<close>

lemma valid_hex3: "isValidColor (Str ''#fff'') []"
  by code_simp

lemma valid_hex6: "isValidColor (Str ''#ffffff'') []"
  by code_simp

lemma valid_hex4: "isValidColor (Str ''#ffff'') []"
  by code_simp

lemma valid_hex8: "isValidColor (Str ''#ffffffff'') []"
  by code_simp

lemma valid_rgba: "isValidColor (Str ''rgba(0,0,0,0.5)'') []"
  by code_simp

lemma valid_hsl: "isValidColor (Str ''hsl(10, 50%, 50%)'') []"
  by code_simp

lemma invalid_px: "\<not> isValidColor (Str ''20px'') []"
  by code_simp

lemma invalid_empty: "\<not> isValidColor (Str []) []"
  by code_simp

lemma invalid_undefined: "\<not> isValidColor Undefined []"
  by code_simp

lemma invalid_bare_number: "\<not> isValidColor (Str ''10'') []"
  by code_simp

text \<open>
  Claim C6. With an empty list of extra patterns, \<^verbatim>\<open>isValidColor\<close> is true of each of
  \<^verbatim>\<open>#fff\<close>, \<^verbatim>\<open>#ffffff\<close>, \<^verbatim>\<open>#ffff\<close>, \<^verbatim>\<open>#ffffffff\<close>, \<^verbatim>\<open>rgba(0,0,0,0.5)\<close> and
  \<^verbatim>\<open>hsl(10, 50%, 50%)\<close>, and false of each of \<^verbatim>\<open>20px\<close>, the empty string, \<^verbatim>\<open>undefined\<close>
  and the string \<^verbatim>\<open>10\<close>.
\<close>

theorem isValidColor_listed_values:
  "isValidColor (Str ''#fff'') [] \<and> isValidColor (Str ''#ffffff'') [] \<and>
   isValidColor (Str ''#ffff'') [] \<and> isValidColor (Str ''#ffffffff'') [] \<and>
   isValidColor (Str ''rgba(0,0,0,0.5)'') [] \<and> isValidColor (Str ''hsl(10, 50%, 50%)'') [] \<and>
   \<not> isValidColor (Str ''20px'') [] \<and> \<not> isValidColor (Str []) [] \<and>
   \<not> isValidColor Undefined [] \<and> \<not> isValidColor (Str ''10'') []"
  by (intro conjI valid_hex3 valid_hex6 valid_hex4 valid_hex8 valid_rgba valid_hsl
        invalid_px invalid_empty invalid_undefined invalid_bare_number)

section \<open>The variable collector on the example file\<close>

lemma color_map_plain_names:
  "generateColorMap ''@a: #111;\<newline>@b: @a;\<newline>@c: 10px;\<newline>'' [] = []"
  by code_simp

lemma less_vars_plain_names:
  "getLessVars ''@a: #111;\<newline>@b: @a;\<newline>@c: 10px;\<newline>'' =
     [(''@a'', ''#111''), (''@b'', ''@a''), (''@c'', ''10px'')]"
  by code_simp

lemma color_map_hyphen_names:
  "generateColorMap ''@a-x: #111;\<newline>@b-x: @a-x;\<newline>@c-x: 10px;\<newline>'' [] =
     [(''@a-x'', ''#111''), (''@b-x'', ''#111'')]"
  by code_simp

text \<open>
  The pattern is not anchored: where the name at the start of the line has no hyphen, a
  match can still start later in the line.
\<close>

lemma color_map_later_match: "generateColorMap ''@ab: x-y: #fff;'' [] = [(''x-y'', ''#fff'')]"
  by code_simp

text \<open>
  Claim C1 as stated fails: on the content \<^verbatim>\<open>@a: #111;\n@b: @a;\n@c: 10px;\n\<close> the
  colours map of \<^verbatim>\<open>generateColorMap\<close> does not hold \<^verbatim>\<open>@a -> #111\<close>. The line pattern
  starts with the lookahead \<^verbatim>\<open>(?=\S*['-])\<close>, and no line of this content has a hyphen or
  an apostrophe.
\<close>

theorem color_map_example_counterexample:
  "\<not> (map_of (generateColorMap ''@a: #111;\<newline>@b: @a;\<newline>@c: 10px;\<newline>'' []) ''@a'' = Some ''#111''
      \<and> map_of (generateColorMap ''@a: #111;\<newline>@b: @a;\<newline>@c: 10px;\<newline>'' []) ''@b'' = Some ''#111''
      \<and> map_of (generateColorMap ''@a: #111;\<newline>@b: @a;\<newline>@c: 10px;\<newline>'' []) ''@c'' = None
      \<and> map_of (getLessVars ''@a: #111;\<newline>@b: @a;\<newline>@c: 10px;\<newline>'') ''@c'' = Some ''10px'')"
  by (simp add: color_map_plain_names)

text \<open>
  Claim C1, amended. On the content \<^verbatim>\<open>@a: #111;\n@b: @a;\n@c: 10px;\n\<close> with no extra
  patterns, \<^verbatim>\<open>generateColorMap\<close> produces the empty mapping (so it holds none of \<^verbatim>\<open>@a\<close>,
  \<^verbatim>\<open>@b\<close>, \<^verbatim>\<open>@c\<close>), and \<^verbatim>\<open>getLessVars\<close> produces a mapping that holds \<^verbatim>\<open>@c -> 10px\<close>.
  On the same content with hyphenated names, \<^verbatim>\<open>@a-x: #111;\n@b-x: @a-x;\n@c-x: 10px;\n\<close>,
  \<^verbatim>\<open>generateColorMap\<close> produces exactly \<^verbatim>\<open>@a-x -> #111\<close> and \<^verbatim>\<open>@b-x -> #111\<close> (the alias
  resolved), without \<^verbatim>\<open>@c-x\<close>.
\<close>

theorem color_map_example:
  "generateColorMap ''@a: #111;\<newline>@b: @a;\<newline>@c: 10px;\<newline>'' [] = []
   \<and> map_of (getLessVars ''@a: #111;\<newline>@b: @a;\<newline>@c: 10px;\<newline>'') ''@c'' = Some ''10px''
   \<and> generateColorMap ''@a-x: #111;\<newline>@b-x: @a-x;\<newline>@c-x: 10px;\<newline>'' [] =
       [(''@a-x'', ''#111''), (''@b-x'', ''#111'')]"
  by (simp add: color_map_plain_names less_vars_plain_names color_map_hyphen_names)

section \<open>The shade rules\<close>

lemma shade_name_primary_ten: "shade_name ''@primary-color'' 10 = ''@primary-10''"
  by (simp add: shade_name_def digit_char_def)

lemma shade_name_link_ten: "shade_name ''@link-color'' 10 = ''@link-color-10''"
  by (simp add: shade_name_def digit_char_def)

lemma getShade_primary_ten: "getShade ''@primary-10'' = Inr (palette_expr ''primary-color'' ''1'')"
  by code_simp

lemma getShade_link_ten: "getShade ''@link-color-10'' = Inr (palette_expr ''link-color'' ''1'')"
  by code_simp

text \<open>The nine names for the primary variable, and the expressions of the first eight.\<close>

lemma shade_names_primary:
  "map (shade_name ''@primary-color'') shade_keys =
     [''@primary-1'', ''@primary-2'', ''@primary-3'', ''@primary-4'', ''@primary-5'',
      ''@primary-7'', ''@primary-8'', ''@primary-9'', ''@primary-10'']"
  by (simp add: shade_keys_def shade_name_def digit_char_def)

lemma getShade_primary_one_to_nine:
  "map getShade [''@primary-1'', ''@primary-2'', ''@primary-3'', ''@primary-4'', ''@primary-5'',
      ''@primary-7'', ''@primary-8'', ''@primary-9''] =
   map (\<lambda>n. Inr (palette_expr ''primary-color'' n))
     [''1'', ''2'', ''3'', ''4'', ''5'', ''7'', ''8'', ''9'']"
  by code_simp

text \<open>
  Claim C5 (the code departs from it). The last key of the shade list is 10, and the
  rule emitted for it does not ask for the tenth shade: \<^verbatim>\<open>getShade\<close> reads the index with
  \<^verbatim>\<open>/(.*)-(\d)/\<close>, one digit, so for \<^verbatim>\<open>@primary-10\<close> (and for \<^verbatim>\<open>@link-color-10\<close>) it
  builds the palette expression with index 1.
\<close>

theorem shade_ten_gets_index_one:
  "last shade_keys = 10
   \<and> getShade (shade_name ''@primary-color'' (last shade_keys)) = Inr (palette_expr ''primary-color'' ''1'')
   \<and> getShade (shade_name ''@link-color'' (last shade_keys)) = Inr (palette_expr ''link-color'' ''1'')
   \<and> palette_expr ''primary-color'' ''1'' \<noteq> palette_expr ''primary-color'' ''10''"
  by (simp add: shade_keys_def shade_name_primary_ten shade_name_link_ten
        getShade_primary_ten getShade_link_ten) (simp add: palette_expr_def)

section \<open>The marker loop on colliding draws\<close>

lemma randomColor_values:
  "randomColor 0x123456 = ''#123456''"
  "randomColor 1 = ''#000001''"
  "randomColor (Suc 0) = ''#000001''"
  "randomColor 0xabcdef = ''#abcdef''"
  by (simp_all add: randomColor_def hex_char_def)

lemma filter_link_primary:
  "filter_theme_vars [(''@link-color'', ''#00f''), (''@primary-color'', ''#f00'')]
     [''@link-color'', ''@primary-color''] = [''@link-color'', ''@primary-color'']"
  by code_simp

lemma filter_link_text:
  "filter_theme_vars [(''@link-color'', ''#00f''), (''@text-color'', ''#f00'')]
     [''@link-color'', ''@text-color''] = [''@link-color'', ''@text-color'']"
  by code_simp

text \<open>What the loop does guarantee: no variable gets black or white.\<close>

lemma reroll_not_reserved:
  "reroll colorsVars color ds = Some (color', ds') \<Longrightarrow> \<not> reroll_cond colorsVars color'"
  by (induction ds arbitrary: color) (auto split: if_splits)

lemma assign_marker_colors:
  assumes "assign_marker st varName = Some st'"
    and "\<And>k c. map_of (randomColors st) k = Some c \<Longrightarrow> c \<noteq> ''#000000'' \<and> c \<noteq> ''#ffffff''"
    and "map_of (randomColors st') k = Some c"
  shows "c \<noteq> ''#000000'' \<and> c \<noteq> ''#ffffff''"
proof -
  from assms(1) obtain color ds' where
    st': "randomColors st' = set_prop (randomColors st) varName color"
    and c: "color = PRIMARY_RANDOM_COLOR \<or> \<not> reroll_cond (randomColorsVars st) color"
    by (auto simp: assign_marker_def split: list.splits if_splits option.splits
          dest: reroll_not_reserved)
  from c have ok: "color \<noteq> ''#000000'' \<and> color \<noteq> ''#ffffff''"
    by (auto simp: PRIMARY_RANDOM_COLOR_def reroll_cond_def)
  show ?thesis
  proof (cases "k = varName \<and> varName \<noteq> ''__proto__''")
    case True
    with assms(3) st' ok show ?thesis by (simp add: set_prop_def update_conv')
  next
    case False
    with assms(3) st' have "map_of (randomColors st) k = Some c"
      by (auto simp: set_prop_def update_conv' split: if_splits)
    then show ?thesis by (rule assms(2))
  qed
qed

lemma assign_markers_colors:
  "assign_markers st themeVars = Some st' \<Longrightarrow>
   (\<And>k c. map_of (randomColors st) k = Some c \<Longrightarrow> c \<noteq> ''#000000'' \<and> c \<noteq> ''#ffffff'') \<Longrightarrow>
   map_of (randomColors st') k = Some c \<Longrightarrow> c \<noteq> ''#000000'' \<and> c \<noteq> ''#ffffff''"
proof (induction themeVars arbitrary: st)
  case Nil
  then show ?case by simp
next
  case (Cons v vs)
  from Cons.prems(1) obtain st1 where a: "assign_marker st v = Some st1"
    and b: "assign_markers st1 vs = Some st'"
    by (auto split: option.splits)
  show ?case
  proof (rule Cons.IH[OF b _ Cons.prems(3)])
    fix k' c'
    assume "map_of (randomColors st1) k' = Some c'"
    with a Cons.prems(2) show "c' \<noteq> ''#000000'' \<and> c' \<noteq> ''#ffffff''"
      using assign_marker_colors by blast
  qed
qed

lemma markers_never_black_or_white:
  "marker_assignment mappings themeVars ds = Some st \<Longrightarrow>
   map_of (randomColors st) k = Some c \<Longrightarrow> c \<noteq> ''#000000'' \<and> c \<noteq> ''#ffffff''"
  unfolding marker_assignment_def
  by (erule assign_markers_colors) simp_all

text \<open>
  Claim C3 (the code departs from it). The loop draws again only for black, for white,
  and for the primary sentinel once the sentinel is in use. With the theme variables
  \<^verbatim>\<open>@link-color\<close>, \<^verbatim>\<open>@primary-color\<close> and a first draw of \<^verbatim>\<open>#123456\<close>, the non-primary
  variable keeps the sentinel and both variables end with the same marker; with
  \<^verbatim>\<open>@link-color\<close>, \<^verbatim>\<open>@text-color\<close> and two equal draws, both end with \<^verbatim>\<open>#abcdef\<close>.
\<close>

theorem marker_collisions:
  "map_option randomColors
     (marker_assignment [(''@link-color'', ''#00f''), (''@primary-color'', ''#f00'')]
        [''@link-color'', ''@primary-color''] [0x123456, 1])
   = Some [(''@link-color'', ''#123456''), (''@primary-color'', ''#123456'')]
   \<and> map_option randomColors
     (marker_assignment [(''@link-color'', ''#00f''), (''@text-color'', ''#f00'')]
        [''@link-color'', ''@text-color''] [0xabcdef, 0xabcdef])
   = Some [(''@link-color'', ''#abcdef''), (''@text-color'', ''#abcdef'')]"
  by (simp add: marker_assignment_def filter_link_primary filter_link_text assign_marker_def
        randomColor_values reroll_cond_def lookup_def PRIMARY_RANDOM_COLOR_def
        set_prop_def proto_names_def)

section \<open>The pruner applied twice\<close>

lemma prune_url_background:
  "reducePlugin [Rule ''.a'' [Decl ''background'' ''url(a.png)'']] = [Rule ''.a'' []]"
  by code_simp

lemma prune_empty_rule: "reducePlugin [Rule ''.a'' []] = []"
  by code_simp

text \<open>
  What does hold of repeated runs: the output of a run has the shape \<open>clean_top\<close>, on such
  a tree a run only removes the rules with no declaration below them, and after that a
  run changes nothing. So the pruner settles with its second run.
\<close>

lemma no_at_remove_at_rules: "no_at (remove_at_rules ns)"
  by (induction ns rule: remove_at_rules.induct) auto

lemma no_at_walk_decls: "no_at ns \<Longrightarrow> no_at (walk_decls ns)"
  by (induction ns rule: walk_decls.induct) auto

lemma walked_walk_decls: "no_at ns \<Longrightarrow> walked (walk_decls ns)"
  by (induction ns rule: walk_decls.induct) auto

lemma walk_decls_walked: "walked ns \<Longrightarrow> walk_decls ns = ns"
  by (induction ns rule: walk_decls.induct) auto

lemma walked_no_at: "walked ns \<Longrightarrow> no_at ns"
  by (induction ns rule: walked.induct) auto

lemma pre_body_clean_rules: "walked ns \<Longrightarrow> pre_body (clean_rules ns)"
  by (induction ns rule: clean_rules.induct) (auto simp: walk_decls_walked)

lemma pre_top_clean_rules: "no_at ns \<Longrightarrow> pre_top (clean_rules ns)"
  by (induction ns rule: clean_rules.induct)
     (auto simp: pre_body_clean_rules walked_walk_decls)

lemma clean_body_remove_comments: "pre_body ns \<Longrightarrow> clean_body (remove_comments ns)"
  by (induction ns rule: remove_comments.induct) auto

lemma clean_top_remove_comments: "pre_top ns \<Longrightarrow> clean_top (remove_comments ns)"
  by (induction ns rule: remove_comments.induct) (auto simp: clean_body_remove_comments)

lemma clean_top_reducePlugin: "clean_top (reducePlugin x)"
  by (simp add: reducePlugin_def clean_top_remove_comments pre_top_clean_rules no_at_remove_at_rules)

lemma clean_body_walked: "clean_body ns \<Longrightarrow> walked ns"
  by (induction ns rule: clean_body.induct) auto

lemma clean_top_no_at: "clean_top ns \<Longrightarrow> no_at ns"
  by (induction ns rule: clean_top.induct) (auto simp: walked_no_at clean_body_walked)

lemma remove_at_rules_no_at: "no_at ns \<Longrightarrow> remove_at_rules ns = ns"
  by (induction ns rule: remove_at_rules.induct) auto

lemma remove_comments_clean_body: "clean_body ns \<Longrightarrow> remove_comments ns = ns"
  by (induction ns rule: clean_body.induct) auto

lemma remove_comments_clean_top: "clean_top ns \<Longrightarrow> remove_comments ns = ns"
  by (induction ns rule: clean_top.induct) (auto simp: remove_comments_clean_body)

lemma keeps_rule_clean_body: "clean_body ns \<Longrightarrow> keeps_rule ns = (all_decls ns \<noteq> [])"
  by (induction ns rule: clean_body.induct)
     (auto simp: decl_removed_def decl_keeps_rule_def)

lemma all_decls_clean_body: "clean_body ns \<Longrightarrow> all_decls (clean_rules ns) = all_decls ns"
  by (induction ns rule: clean_rules.induct)
     (auto simp: keeps_rule_clean_body walk_decls_walked clean_body_walked)

lemma clean_body_clean_rules: "clean_body ns \<Longrightarrow> clean_body (clean_rules ns) \<and> full (clean_rules ns)"
  by (induction ns rule: clean_rules.induct)
     (auto simp: keeps_rule_clean_body walk_decls_walked clean_body_walked all_decls_clean_body)

lemma clean_top_clean_rules: "clean_top ns \<Longrightarrow> clean_top (clean_rules ns) \<and> full (clean_rules ns)"
  by (induction ns rule: clean_rules.induct)
     (auto simp: keeps_rule_clean_body walk_decls_walked clean_body_walked all_decls_clean_body
        clean_body_clean_rules)

lemma clean_rules_full_body: "clean_body ns \<Longrightarrow> full ns \<Longrightarrow> clean_rules ns = ns"
  by (induction ns rule: clean_rules.induct)
     (auto simp: keeps_rule_clean_body walk_decls_walked clean_body_walked)

lemma clean_rules_full_top: "clean_top ns \<Longrightarrow> full ns \<Longrightarrow> clean_rules ns = ns"
  by (induction ns rule: clean_rules.induct)
     (auto simp: keeps_rule_clean_body walk_decls_walked clean_body_walked clean_rules_full_body)

lemma reducePlugin_clean_top: "clean_top ns \<Longrightarrow> reducePlugin ns = clean_rules ns"
  using clean_top_clean_rules[of ns]
  by (simp add: reducePlugin_def remove_at_rules_no_at clean_top_no_at remove_comments_clean_top)

lemma reducePlugin_settles:
  "reducePlugin (reducePlugin (reducePlugin x)) = reducePlugin (reducePlugin x)"
proof -
  let ?t1 = "reducePlugin x"
  have c1: "clean_top ?t1" by (rule clean_top_reducePlugin)
  have t2: "reducePlugin ?t1 = clean_rules ?t1" using c1 by (rule reducePlugin_clean_top)
  have c2: "clean_top (clean_rules ?t1)" "full (clean_rules ?t1)"
    using clean_top_clean_rules[OF c1] by simp_all
  have "reducePlugin (clean_rules ?t1) = clean_rules (clean_rules ?t1)"
    using c2(1) by (rule reducePlugin_clean_top)
  also have "\<dots> = clean_rules ?t1" using c2 by (rule clean_rules_full_top)
  finally show ?thesis by (simp add: t2)
qed

text \<open>
  Claim C7 (the code departs from it). For the style sheet \<^verbatim>\<open>.a { background: url(a.png) }\<close>
  the first test of the callback removes the declaration and its last branch still sets
  \<^verbatim>\<open>removeRule\<close> to false: the first run leaves the rule \<^verbatim>\<open>.a\<close> with no declaration, and
  a second run removes that rule. Running the pruner twice is not running it once.
\<close>

theorem reducePlugin_twice_differs:
  "reducePlugin [Rule ''.a'' [Decl ''background'' ''url(a.png)'']] = [Rule ''.a'' []]
   \<and> reducePlugin (reducePlugin [Rule ''.a'' [Decl ''background'' ''url(a.png)'']]) = []
   \<and> reducePlugin (reducePlugin [Rule ''.a'' [Decl ''background'' ''url(a.png)'']])
       \<noteq> reducePlugin [Rule ''.a'' [Decl ''background'' ''url(a.png)'']]"
  by (simp add: prune_url_background prune_empty_rule)

section \<open>The cache after a failed run\<close>

text \<open>
  A failure while the consumer files are read leaves the cache as it was, and no failure
  changes the stored style sheet.
\<close>

lemma failed_read_keeps_cache: "generateTheme sha1 (Inl e) stages st = ([], st, [e])"
  by (simp add: generateTheme_def)

lemma failed_stage_keeps_css:
  "generateTheme sha1 content (Inl e) st = (r, st', l) \<Longrightarrow> cssCache st' = cssCache st"
  by (auto simp: generateTheme_def Let_def split: sum.splits if_splits)

text \<open>
  Claim C4 (the code departs from it). When the consumer content is read and a stage
  after the cache check throws, the call logs the error and returns the empty string,
  and the stored style sheet is unchanged, but the stored hash is the hash of the
  content read: it was stored before the stages ran (unless it was that hash already,
  and then no stage runs). The next call with the same content returns the style sheet
  stored before the failure, whatever its stages would produce. In a fresh process both
  stored strings are empty and a digest is not, so a run on content \<^verbatim>\<open>a\<close> whose stages fail
  leaves the hash of \<^verbatim>\<open>a\<close> stored, and the next run on \<^verbatim>\<open>a\<close> returns the empty string.
\<close>

theorem failed_run_stores_hash:
  "generateTheme sha1 (Inr text) (Inl e) st =
     (if sha1 text = hashCache st then (cssCache st, st, [])
      else ([], st\<lparr>hashCache := sha1 text\<rparr>, [e]))
   \<and> generateTheme sha1 (Inr text) stages (st\<lparr>hashCache := sha1 text\<rparr>) =
     (cssCache st, st\<lparr>hashCache := sha1 text\<rparr>, [])"
  by (simp add: generateTheme_def)

section \<open>Resolution of aliases\<close>
























section \<open>Hexadecimal values that are only partly hexadecimal\<close>

lemma canon_False [simp]: "canon False c = c"
  by (simp add: canon_def)

lemma map_canon_False [simp]: "map (canon False) xs = xs"
  by (induction xs) simp_all

lemma matches_Lit_prefix: "(matches False n (Lit l) s c = []) = (\<not> prefix l s)"
proof -
  have "(length l \<le> length s \<and> take (length l) s = l) = prefix l s"
    by (metis append_eq_conv_conj prefix_def prefix_length_le)
  then show ?thesis by simp
qed

text \<open>A pattern of plain characters is found in a string exactly when the string holds it.\<close>

lemma exec_at_Lit: "(exec_at False n (Lit l) s = None) = (\<not> sublist l s)"
proof (induction s)
  case Nil
  show ?case
    using matches_Lit_prefix[of n l "[]" "[]"] by (auto split: list.splits)
next
  case (Cons x s)
  show ?case
    using matches_Lit_prefix[of n l "x # s" "[]"] Cons
    by (auto simp: sublist_Cons_right split: list.splits)
qed

lemma test_px: "re_test px_re s = sublist ''px'' s"
  by (simp add: px_re_def exec_at_Lit)

lemma hex_not_space: "is_hex h \<Longrightarrow> \<not> is_space h"
  by (auto simp: is_hex_def is_space_def)

lemma hex_not_sign: "is_hex h \<Longrightarrow> h \<noteq> CHR ''-'' \<and> h \<noteq> CHR ''+''"
  by (auto simp: is_hex_def)

lemma parseInt16_hex:
  assumes "is_hex h" "3 \<le> length (h # rest)"
    and "take 2 (h # rest) = ''0x'' \<or> take 2 (h # rest) = ''0X'' \<Longrightarrow> is_hex ((h # rest) ! 2)"
  shows "parseInt16 (h # rest) \<noteq> None"
proof -
  let ?r = "h # rest"
  have t: "dropWhile is_space ?r = ?r"
    using assms(1) by (simp add: hex_not_space)
  have s: "take 1 ?r \<noteq> ''-''" "take 1 ?r \<noteq> ''+''"
    using hex_not_sign[OF assms(1)] by auto
  show ?thesis
  proof (cases "take 2 ?r = ''0x'' \<or> take 2 ?r = ''0X''")
    case True
    from assms(2) have "drop 2 ?r = (?r ! 2) # drop 3 ?r"
      by (metis Cons_nth_drop_Suc One_nat_def Suc_1 Suc_le_lessD numeral_3_eq_3)
    with assms(3)[OF True] have "takeWhile is_hex (drop 2 ?r) \<noteq> []"
      by simp
    with True t s show ?thesis
      unfolding parseInt16_def Let_def by (simp only: if_True t) auto
  next
    case False
    have "takeWhile is_hex ?r \<noteq> []" using assms(1) by simp
    with False t s show ?thesis
      unfolding parseInt16_def Let_def by (simp only: if_False t) auto
  qed
qed

lemma invalid_hash_1px: "\<not> isValidColor (Str ''#1px'') []"
  by code_simp

lemma invalid_hash_0xz: "\<not> isValidColor (Str ''#0xz'') []"
  by code_simp

text \<open>
  Claim C10 as stated fails. \<^verbatim>\<open>#1px\<close> and \<^verbatim>\<open>#0xz\<close> begin with \<^verbatim>\<open>#\<close>, the remainder has
  length 3 and starts with a hexadecimal digit, and \<^verbatim>\<open>isValidColor\<close> is false of both: the
  test on \<^verbatim>\<open>px\<close> comes before the hexadecimal branch, and \<^verbatim>\<open>parseInt\<close> with radix 16
  passes over a leading \<^verbatim>\<open>0x\<close> before it looks for a digit.
\<close>

theorem hex_prefix_counterexample:
  "length ''1px'' = 3 \<and> is_hex (hd ''1px'') \<and> \<not> isValidColor (Str (CHR ''#'' # ''1px'')) []
   \<and> length ''0xz'' = 3 \<and> is_hex (hd ''0xz'') \<and> \<not> isValidColor (Str (CHR ''#'' # ''0xz'')) []"
  using invalid_hash_1px invalid_hash_0xz by (simp add: is_hex_def)

text \<open>
  Claim C10, amended. For every string that begins with \<^verbatim>\<open>#\<close> and whose remainder has
  length 3, 4, 6 or 8, starts with a hexadecimal digit, does not hold \<^verbatim>\<open>px\<close>, and does not
  start with \<^verbatim>\<open>0x\<close> or \<^verbatim>\<open>0X\<close> followed by a character that is no hexadecimal digit,
  \<^verbatim>\<open>isValidColor\<close> returns true, whatever the other characters of the remainder and
  whatever the extra patterns: only a leading run of digits is parsed.
\<close>

theorem hex_prefix_accepted:
  assumes len: "length r \<in> {3, 4, 6, 8}"
    and hex: "is_hex (hd r)"
    and px: "\<not> sublist ''px'' r"
    and ox: "take 2 r = ''0x'' \<or> take 2 r = ''0X'' \<Longrightarrow> is_hex (r ! 2)"
  shows "isValidColor (Str (CHR ''#'' # r)) customColorRegexArray"
proof -
  from len obtain h rest where r: "r = h # rest"
    by (cases r) auto
  have l3: "3 \<le> length (h # rest)" using len r by auto
  have p: "parseInt16 r \<noteq> None"
    using parseInt16_hex[OF _ l3] hex ox r by auto
  have npx: "\<not> sublist ''px'' (CHR ''#'' # r)"
    using px by (simp add: sublist_Cons_right)
  have lenset: "length r \<in> set [3, 4, 6, 8]" using len by simp
  show ?thesis
    unfolding isValidColor_def using p npx lenset
    by (simp add: test_px Let_def del: set_simps)
qed

lemma no_px_1zz: "\<not> sublist ''px'' ''1zz''"
  by code_simp

lemma no_px_0x1: "\<not> sublist ''px'' ''0x1''"
  by code_simp

text \<open>\<^verbatim>\<open>#1zz\<close> is accepted, and so is \<^verbatim>\<open>#0x1\<close>, where a digit follows the \<^verbatim>\<open>0x\<close>.\<close>

theorem hex_prefix_accepted_witness:
  "length ''1zz'' \<in> {3, 4, 6, 8} \<and> is_hex (hd ''1zz'') \<and> \<not> sublist ''px'' ''1zz''
   \<and> isValidColor (Str ''#1zz'') []
   \<and> take 2 ''0x1'' = ''0x'' \<and> is_hex (''0x1'' ! 2) \<and> isValidColor (Str ''#0x1'') []"
  using hex_prefix_accepted[of "''1zz''" "[]"] hex_prefix_accepted[of "''0x1''" "[]"]
    no_px_1zz no_px_0x1
  by (simp add: is_hex_def)

section \<open>Declarations the pruner removes\<close>

lemma all_decls_walk_decls:
  "d \<in> set (all_decls (walk_decls ns)) \<Longrightarrow>
     d \<in> set (all_decls ns) \<and> \<not> decl_removed (fst d) (snd d)"
  by (induction ns rule: walk_decls.induct) (auto split: if_splits)

lemma all_decls_clean_rules:
  "d \<in> set (all_decls (clean_rules ns)) \<Longrightarrow> d \<in> set (all_decls ns)"
  by (induction ns rule: clean_rules.induct) (auto split: if_splits dest: all_decls_walk_decls)

lemma rule_decls_clean_rules:
  "d \<in> set (rule_decls (clean_rules ns)) \<Longrightarrow> \<not> decl_removed (fst d) (snd d)"
  by (induction ns rule: clean_rules.induct)
     (auto split: if_splits dest: all_decls_walk_decls all_decls_clean_rules)

lemma all_decls_remove_comments: "all_decls (remove_comments ns) = all_decls ns"
  by (induction ns rule: remove_comments.induct) auto

lemma rule_decls_remove_comments: "rule_decls (remove_comments ns) = rule_decls ns"
  by (induction ns rule: remove_comments.induct) (auto simp: all_decls_remove_comments)

text \<open>No declaration that the callback removes is left below a rule of the output.\<close>

lemma rule_decls_reducePlugin:
  "d \<in> set (rule_decls (reducePlugin css_root)) \<Longrightarrow> \<not> decl_removed (fst d) (snd d)"
  by (simp add: reducePlugin_def rule_decls_remove_comments rule_decls_clean_rules)

lemma padding_no_colour:
  "\<not> sublist ''color'' ''padding''" "\<not> sublist ''background'' ''padding''"
  "\<not> sublist ''border'' ''padding''" "\<not> sublist ''box-shadow'' ''padding''"
  by code_simp+

lemma prune_body:
  "reducePlugin [Rule ''.body'' [Decl ''padding'' ''0'', Decl ''color'' ''#000'']] =
     [Rule ''.body'' [Decl ''color'' ''#000'']]"
  by code_simp

text \<open>
  Claim C2 as stated fails: a value that is a bare numeric literal does not keep a
  declaration. In the rule \<^verbatim>\<open>.body { padding: 0; color: #000 }\<close> the property \<^verbatim>\<open>padding\<close>
  holds none of the four words, its value is \<^verbatim>\<open>0\<close>, and the pruner removes the
  declaration, as the comment above \<^verbatim>\<open>reducePlugin\<close> shows it.
\<close>

theorem numeric_value_counterexample:
  "\<not> sublist ''color'' ''padding'' \<and> \<not> sublist ''background'' ''padding'' \<and>
   \<not> sublist ''border'' ''padding'' \<and> \<not> sublist ''box-shadow'' ''padding'' \<and>
   decl_removed ''padding'' ''0'' \<and>
   reducePlugin [Rule ''.body'' [Decl ''padding'' ''0'', Decl ''color'' ''#000'']] =
     [Rule ''.body'' [Decl ''color'' ''#000'']]"
  using padding_no_colour prune_body
  by (simp add: decl_removed_def second_test_def Number_isNaN_def)

text \<open>
  Claim C2, amended. For every declaration the pruner visits whose property name holds
  none of \<^verbatim>\<open>color\<close>, \<^verbatim>\<open>background\<close>, \<^verbatim>\<open>border\<close>, \<^verbatim>\<open>box-shadow\<close>, the declaration is removed,
  whatever its value (a bare numeric literal too), and it does not keep its rule: the
  callback removes it without setting \<^verbatim>\<open>removeRule\<close> to false, and no such declaration is
  left below a rule of the pruner's output.
\<close>

theorem other_declarations_removed:
  assumes "\<not> sublist ''color'' prop" "\<not> sublist ''background'' prop"
    "\<not> sublist ''border'' prop" "\<not> sublist ''box-shadow'' prop"
  shows "decl_removed prop v \<and> \<not> decl_keeps_rule prop v
         \<and> (prop, v) \<notin> set (rule_decls (reducePlugin css_root))"
proof -
  have r: "decl_removed prop v" and k: "\<not> decl_keeps_rule prop v"
    using assms
    by (simp_all add: decl_removed_def decl_keeps_rule_def second_test_def Number_isNaN_def)
  moreover have "(prop, v) \<notin> set (rule_decls (reducePlugin css_root))"
    using rule_decls_reducePlugin[of "(prop, v)" css_root] r by auto
  ultimately show ?thesis by simp
qed

text \<open>The declaration \<^verbatim>\<open>padding: 0\<close> of the rule \<^verbatim>\<open>.body\<close> above.\<close>

theorem other_declarations_removed_witness:
  "\<not> sublist ''color'' ''padding'' \<and> \<not> sublist ''background'' ''padding'' \<and>
   \<not> sublist ''border'' ''padding'' \<and> \<not> sublist ''box-shadow'' ''padding'' \<and>
   decl_removed ''padding'' ''0'' \<and> \<not> decl_keeps_rule ''padding'' ''0'' \<and>
   (''padding'', ''0'') \<notin> set (rule_decls (reducePlugin
        [Rule ''.body'' [Decl ''padding'' ''0'', Decl ''color'' ''#000'']]))"
  using padding_no_colour
    other_declarations_removed[OF padding_no_colour, of "''0''"
      "[Rule ''.body'' [Decl ''padding'' ''0'', Decl ''color'' ''#000'']]"]
  by simp

section \<open>The cache between two runs\<close>

text \<open>
  Claim C8. The cache is keyed by the digest of the joined consumer content. If a call
  of \<^verbatim>\<open>generateTheme\<close> succeeds (nothing is logged) and returns the style sheet \<open>S\<close>, then
  the next call returns exactly \<open>S\<close>, leaves the cache as it is and runs no stage when its
  consumer content has the same digest; and when its content has changed, so that its
  digest differs, it does not take the short cut: it stores the new digest and returns
  what its stages produce (the empty string, with the error logged, when they throw).
\<close>

theorem cache_after_success:
  assumes "generateTheme sha1 (Inr cs) stages st = (S, st', [])"
  shows "generateTheme sha1 (Inr cs') stages' st' =
           (if sha1 cs' = sha1 cs then (S, st', [])
            else (case stages' of
                    Inl e \<Rightarrow> ([], st'\<lparr>hashCache := sha1 cs'\<rparr>, [e])
                  | Inr css_text \<Rightarrow>
                      (css_text, \<lparr>hashCache = sha1 cs', cssCache = css_text\<rparr>, [])))"
proof -
  from assms have "hashCache st' = sha1 cs \<and> cssCache st' = S"
    by (auto simp: generateTheme_def Let_def split: if_splits sum.splits)
  then show ?thesis
    by (auto simp: generateTheme_def Let_def split: sum.splits)
qed

lemma first_run:
  "generateTheme (\<lambda>cs. cs) (Inr ''a'') (Inr ''S'') \<lparr>hashCache = [], cssCache = []\<rparr> =
     (''S'', \<lparr>hashCache = ''a'', cssCache = ''S''\<rparr>, [])"
  by (simp add: generateTheme_def)

text \<open>
  Three runs, with the identity in the place of the hash: content \<^verbatim>\<open>a\<close> gives \<^verbatim>\<open>S\<close>; content
  \<^verbatim>\<open>a\<close> again gives \<^verbatim>\<open>S\<close> though the stages would throw; content \<^verbatim>\<open>b\<close> gives what its
  stages produce.
\<close>

theorem cache_after_success_witness:
  "generateTheme (\<lambda>cs. cs) (Inr ''a'') (Inr ''S'') \<lparr>hashCache = [], cssCache = []\<rparr> =
     (''S'', \<lparr>hashCache = ''a'', cssCache = ''S''\<rparr>, [])
   \<and> generateTheme (\<lambda>cs. cs) (Inr ''a'') (Inl TypeError) \<lparr>hashCache = ''a'', cssCache = ''S''\<rparr> =
     (''S'', \<lparr>hashCache = ''a'', cssCache = ''S''\<rparr>, [])
   \<and> generateTheme (\<lambda>cs. cs) (Inr ''b'') (Inr ''T'') \<lparr>hashCache = ''a'', cssCache = ''S''\<rparr> =
     (''T'', \<lparr>hashCache = ''b'', cssCache = ''T''\<rparr>, [])"
  using first_run
    cache_after_success[OF first_run, of "''a''" "Inl TypeError"]
    cache_after_success[OF first_run, of "''b''" "Inr ''T''"]
  by simp

end
